theory Spec2Isabelle
  imports Main
begin

section \<open>JavaScript values as the server sees them\<close>

text \<open>
  The server of \<^verbatim>\<open>api/index.js\<close> works on what \<^verbatim>\<open>JSON.parse\<close> returns: null, booleans,
  numbers, strings, arrays and objects. An object is its list of own properties, in
  insertion order; \<^verbatim>\<open>JSON.parse\<close> never yields two properties of one name. The type of
  numbers is a parameter \<open>'n\<close>: the program never computes with a number, it only
  echoes one (the id) or renders one into a text.

  A property read that finds nothing gives JavaScript's \<^verbatim>\<open>undefined\<close>, which is not a
  JSON value: it is \<open>None\<close> of \<open>'n json option\<close>.
\<close>

datatype 'n json =
    JNull
  | JBool bool
  | JNum 'n
  | JStr string
  | JArr "'n json list"
  | JObj "(string \<times> 'n json) list"

text \<open>
  What the program can raise. A \<^verbatim>\<open>TypeError\<close>: a property read on null or undefined,
  a destructuring of null or undefined, or a conversion to string of an object that
  has no usable \<^verbatim>\<open>toString\<close>. A \<^verbatim>\<open>RangeError\<close>: \<^verbatim>\<open>JSON.stringify\<close> on a value nested so
  deep that the stack runs out. \<^verbatim>\<open>JSON.parse\<close> raises a \<^verbatim>\<open>SyntaxError\<close>.
\<close>

datatype failure =
    ReadOfNull string
  | ReadOfUndefined string
  | DestructureOfNull
  | DestructureOfUndefined
  | NotPrimitive

datatype exn = TypeError failure | RangeError | SyntaxError

text \<open>
  What the JavaScript engine and the clock supply: the text of a number
  (\<^verbatim>\<open>Number.prototype.toString\<close>); the number of an integer literal; what a number
  comes back as from \<^verbatim>\<open>JSON.parse(JSON.stringify(n))\<close> (itself when \<^verbatim>\<open>JSON.stringify\<close> can
  write it, null in place of \<^verbatim>\<open>Infinity\<close>, which is what the literal \<^verbatim>\<open>1e400\<close> parses
  to); the text of \<^verbatim>\<open>error.message\<close>; \<^verbatim>\<open>new Date().toISOString()\<close> at the time of the
  call; and how many levels of nesting, beyond the first eight, \<^verbatim>\<open>JSON.stringify\<close>
  serialises, and \<^verbatim>\<open>Array.prototype.join\<close> joins, before the stack runs out.
\<close>

record 'n runtime =
  showNum :: "'n \<Rightarrow> string"
  numOfInt :: "int \<Rightarrow> 'n"
  reparseNum :: "'n \<Rightarrow> 'n json"
  errMessage :: "exn \<Rightarrow> string"
  isoNow :: string
  deepest :: nat
  deepestJoin :: nat

definition bindE :: "exn + 'a \<Rightarrow> ('a \<Rightarrow> exn + 'b) \<Rightarrow> exn + 'b" where
  "bindE m f = (case m of Inl e \<Rightarrow> Inl e | Inr x \<Rightarrow> f x)"

text \<open>
  \<^verbatim>\<open>v.k\<close> for the property names this program reads (\<^verbatim>\<open>jsonrpc\<close>, \<^verbatim>\<open>method\<close>, \<^verbatim>\<open>id\<close>,
  \<^verbatim>\<open>params\<close>, \<^verbatim>\<open>name\<close>, \<^verbatim>\<open>arguments\<close>, \<^verbatim>\<open>query\<close>, \<^verbatim>\<open>type\<close>): none of them is a property of
  the prototype of objects, arrays, strings, numbers or booleans, so the read gives
  the own property of an object and \<^verbatim>\<open>undefined\<close> everywhere else; on null and on
  undefined it raises.
\<close>

fun getProp :: "'n json option \<Rightarrow> string \<Rightarrow> exn + 'n json option" where
  "getProp None k = Inl (TypeError (ReadOfUndefined k))"
| "getProp (Some JNull) k = Inl (TypeError (ReadOfNull k))"
| "getProp (Some (JObj kvs)) k = Inr (map_of kvs k)"
| "getProp (Some v) k = Inr None"

text \<open>
  The conversion to string of a template literal \<^verbatim>\<open>`${v}`\<close>. An array is joined with
  commas, null elements giving the empty text; the join calls itself for an array
  inside an array, \<open>d\<close> is the number of levels the stack still has room for, and an
  array beyond it raises a \<^verbatim>\<open>RangeError\<close>. An object parsed from JSON has no callable
  property: when it has an own property \<^verbatim>\<open>toString\<close> the inherited one is hidden,
  \<^verbatim>\<open>valueOf\<close> returns no primitive, and the conversion raises; otherwise the inherited
  \<^verbatim>\<open>toString\<close> gives \<^verbatim>\<open>[object Object]\<close>.
\<close>

fun toStr :: "'n runtime \<Rightarrow> nat \<Rightarrow> 'n json \<Rightarrow> exn + string"
  and joinElems :: "'n runtime \<Rightarrow> nat \<Rightarrow> 'n json list \<Rightarrow> exn + string" where
  "toStr rt d JNull = Inr ''null''"
| "toStr rt d (JBool b) = Inr (if b then ''true'' else ''false'')"
| "toStr rt d (JNum n) = Inr (showNum rt n)"
| "toStr rt d (JStr s) = Inr s"
| "toStr rt d (JArr xs) =
     (case d of 0 \<Rightarrow> Inl RangeError | Suc d' \<Rightarrow> joinElems rt d' xs)"
| "toStr rt d (JObj kvs) =
     (if ''toString'' \<in> set (map fst kvs) then Inl (TypeError NotPrimitive)
      else Inr ''[object Object]'')"
| "joinElems rt d [] = Inr ''''"
| "joinElems rt d (x # xs) =
     (case (if x = JNull then Inr '''' else toStr rt d x) of
        Inl e \<Rightarrow> Inl e
      | Inr s \<Rightarrow>
          (if xs = [] then Inr s
           else (case joinElems rt d xs of
                   Inl e \<Rightarrow> Inl e
                 | Inr t \<Rightarrow> Inr (s @ '','' @ t))))"

fun toStrU :: "'n runtime \<Rightarrow> 'n json option \<Rightarrow> exn + string" where
  "toStrU rt None = Inr ''undefined''"
| "toStrU rt (Some v) = toStr rt (8 + deepestJoin rt) v"

section \<open>\<^verbatim>\<open>JSON.stringify\<close> and the log\<close>

text \<open>
  \<^verbatim>\<open>JSON.stringify\<close> recurses once for every level of arrays and objects and raises a
  \<^verbatim>\<open>RangeError\<close> when the stack runs out; \<^verbatim>\<open>JSON.parse\<close> has no such bound, so a request
  can carry a value that the server cannot serialise again. On values parsed from
  JSON nothing else makes it raise. The bound is the engine's: the model takes it
  as a depth, the same at every call, and never less than eight, which is what the
  deepest value needs that the server builds itself (the answer to \<^verbatim>\<open>tools/list\<close>). The
  engine's bound on the length of a string is left out: bodies and texts are taken
  to stay below it.
\<close>

fun jsonDepth :: "'n json \<Rightarrow> nat"
  and depthOfElems :: "'n json list \<Rightarrow> nat"
  and depthOfMembers :: "(string \<times> 'n json) list \<Rightarrow> nat" where
  "jsonDepth (JArr xs) = Suc (depthOfElems xs)"
| "jsonDepth (JObj kvs) = Suc (depthOfMembers kvs)"
| "jsonDepth v = 0"
| "depthOfElems [] = 0"
| "depthOfElems (x # xs) = max (jsonDepth x) (depthOfElems xs)"
| "depthOfMembers [] = 0"
| "depthOfMembers ((k, v) # kvs) = max (jsonDepth v) (depthOfMembers kvs)"

definition stringify :: "'n runtime \<Rightarrow> 'n json \<Rightarrow> exn + unit" where
  "stringify rt v = (if jsonDepth v \<le> 8 + deepest rt then Inr () else Inl RangeError)"

text \<open>
  An object literal some of whose values may be undefined, as \<^verbatim>\<open>JSON.stringify\<close> sees
  it: the members that are undefined are left out.
\<close>

fun objectOf :: "(string \<times> 'n json option) list \<Rightarrow> (string \<times> 'n json) list" where
  "objectOf [] = []"
| "objectOf ((k, None) # ms) = objectOf ms"
| "objectOf ((k, Some v) # ms) = (k, v) # objectOf ms"

text \<open>
  \<^verbatim>\<open>log(message, data)\<close> writes one line to the console; the line holds
  \<^verbatim>\<open>JSON.stringify(data)\<close> when \<^verbatim>\<open>data\<close> is truthy. All that matters to the caller is
  whether that raises. Data that is not truthy (undefined, null, false, 0, the empty
  string) is not serialised; it is primitive, and on a primitive \<^verbatim>\<open>JSON.stringify\<close>
  does not raise, so the model need not tell the two cases apart.
\<close>

fun log :: "'n runtime \<Rightarrow> 'n json option \<Rightarrow> exn + unit" where
  "log rt None = Inr ()"
| "log rt (Some v) = stringify rt v"

section \<open>Constants of the server\<close>

definition MCP_PROTOCOL_VERSION :: string where
  "MCP_PROTOCOL_VERSION = ''2024-11-05''"

definition SERVER_INFO :: "'n json" where
  "SERVER_INFO = JObj [(''name'', JStr ''ghl-mcp-server''), (''version'', JStr ''1.0.0'')]"

definition TOOLS :: "'n json list" where
  "TOOLS =
    [JObj
      [(''name'', JStr ''search''),
       (''description'', JStr ''Search for information in GoHighLevel CRM system''),
       (''inputSchema'', JObj
         [(''type'', JStr ''object''),
          (''properties'', JObj
            [(''query'', JObj
              [(''type'', JStr ''string''),
               (''description'', JStr ''Search query for GoHighLevel data'')])]),
          (''required'', JArr [JStr ''query''])])],
     JObj
      [(''name'', JStr ''retrieve''),
       (''description'', JStr ''Retrieve specific data from GoHighLevel''),
       (''inputSchema'', JObj
         [(''type'', JStr ''object''),
          (''properties'', JObj
            [(''id'', JObj
              [(''type'', JStr ''string''),
               (''description'', JStr ''ID of the item to retrieve'')]),
             (''type'', JObj
              [(''type'', JStr ''string''),
               (''enum'', JArr [JStr ''contact'', JStr ''conversation'', JStr ''blog'']),
               (''description'', JStr ''Type of item to retrieve'')])]),
          (''required'', JArr [JStr ''id'', JStr ''type''])])]]"

text \<open>The fixed texts of the two tools, as the UTF-8 bytes that go on the wire.\<close>

definition nl :: string where "nl = [CHR 0x0A]"
definition dq :: string where "dq = [CHR 0x22]"
definition sq :: string where "sq = [CHR 0x27]"
definition bullet :: string where "bullet = [CHR 0xE2, CHR 0x80, CHR 0xA2]"
definition checkMark :: string where "checkMark = [CHR 0xE2, CHR 0x9C, CHR 0x85]"
definition barChart :: string where "barChart = [CHR 0xF0, CHR 0x9F, CHR 0x93, CHR 0x8A]"
definition pageIcon :: string where "pageIcon = [CHR 0xF0, CHR 0x9F, CHR 0x93, CHR 0x84]"

definition searchText :: "string \<Rightarrow> string" where
  "searchText query =
     ''GoHighLevel Search Results for: '' @ dq @ query @ dq @ nl @ nl
     @ checkMark @ '' Found Results:'' @ nl
     @ bullet @ '' Contact: John Doe (john@example.com)'' @ nl
     @ bullet @ '' Contact: Jane Smith (jane@example.com)'' @ nl
     @ bullet @ '' Conversation: '' @ dq @ ''Follow-up call scheduled'' @ dq @ nl
     @ bullet @ '' Blog Post: '' @ dq @ ''How to Generate More Leads'' @ dq @ nl @ nl
     @ barChart @ '' Search completed successfully in GoHighLevel CRM.''"

definition retrieveText :: "string \<Rightarrow> string \<Rightarrow> string \<Rightarrow> string \<Rightarrow> string" where
  "retrieveText ty1 ident ty2 stamp =
     ''GoHighLevel '' @ ty1 @ '' Retrieved: ID '' @ ident @ nl @ nl
     @ pageIcon @ '' Details:'' @ nl
     @ bullet @ '' Name: Sample '' @ ty2 @ nl
     @ bullet @ '' Status: Active'' @ nl
     @ bullet @ '' Last Updated: '' @ stamp @ nl
     @ bullet @ '' Source: GoHighLevel CRM'' @ nl @ nl
     @ checkMark @ '' Data retrieved successfully from GoHighLevel.''"

section \<open>Envelope codec\<close>

text \<open>
  The error object \<^verbatim>\<open>{code, message, data}\<close> and the response object. A field that is
  \<open>None\<close> is a property the object does not have, except \<open>rpc_id\<close>: the property
  \<^verbatim>\<open>id\<close> is always there, and \<open>None\<close> is its value \<^verbatim>\<open>undefined\<close>.
\<close>

record rpc_error =
  code :: int
  message :: string
  data :: "string option"

record 'n response =
  jsonrpc :: string
  rpc_id :: "'n json option"
  result :: "'n json option"
  error :: "rpc_error option"

text \<open>
  \<^verbatim>\<open>createJsonRpcResponse(id, result = null, error = null)\<close>. An argument left out (or
  undefined) is \<open>None\<close> and takes its default. Every caller passes an object literal
  or nothing for \<^verbatim>\<open>error\<close>, so \<^verbatim>\<open>if (error)\<close> asks whether one was passed.
\<close>

definition createJsonRpcResponse ::
  "'n json option \<Rightarrow> 'n json option \<Rightarrow> rpc_error option \<Rightarrow> 'n response" where
  "createJsonRpcResponse i res err =
     (let res' = (case res of None \<Rightarrow> JNull | Some v \<Rightarrow> v) in
      case err of
        Some e \<Rightarrow> \<lparr>jsonrpc = ''2.0'', rpc_id = i, result = None, error = Some e\<rparr>
      | None \<Rightarrow> \<lparr>jsonrpc = ''2.0'', rpc_id = i, result = Some res', error = None\<rparr>)"

text \<open>
  A response is well formed when its version is \<^verbatim>\<open>"2.0"\<close> and it has exactly one of
  \<^verbatim>\<open>result\<close> and \<^verbatim>\<open>error\<close>.
\<close>

definition wellFormed :: "'n response \<Rightarrow> bool" where
  "wellFormed r = (jsonrpc r = ''2.0'' \<and> (result r = None) \<noteq> (error r = None))"

definition createJsonRpcNotification :: "string \<Rightarrow> 'n json option \<Rightarrow> 'n json" where
  "createJsonRpcNotification meth params =
     JObj [(''jsonrpc'', JStr ''2.0''), (''method'', JStr meth),
           (''params'', (case params of None \<Rightarrow> JObj [] | Some p \<Rightarrow> p))]"

section \<open>Message dispatcher\<close>

text \<open>
  Every call of \<^verbatim>\<open>log\<close> that is given data from the request is in the model, where
  the source has it: the data is read, then serialised, and either can raise. The
  calls of \<^verbatim>\<open>log\<close> without data, or with a text, cannot raise and are left out.
\<close>

definition handleInitialize :: "'n runtime \<Rightarrow> 'n json \<Rightarrow> exn + 'n response" where
  "handleInitialize rt request =
     bindE (getProp (Some request) ''params'') (\<lambda>params.
     bindE (log rt params) (\<lambda>_.
     bindE (getProp (Some request) ''id'') (\<lambda>i.
       Inr (createJsonRpcResponse i
         (Some (JObj
           [(''protocolVersion'', JStr MCP_PROTOCOL_VERSION),
            (''capabilities'', JObj [(''tools'', JObj [])]),
            (''serverInfo'', SERVER_INFO)]))
         None))))"

definition handleToolsList :: "'n json \<Rightarrow> exn + 'n response" where
  "handleToolsList request =
     bindE (getProp (Some request) ''id'') (\<lambda>i.
       Inr (createJsonRpcResponse i (Some (JObj [(''tools'', JArr TOOLS)])) None))"

text \<open>
  \<^verbatim>\<open>const { name, arguments: args } = request.params\<close> raises on null and undefined
  and reads the two properties of anything else.
\<close>

fun destructureParams :: "'n json option \<Rightarrow> exn + ('n json option \<times> 'n json option)" where
  "destructureParams None = Inl (TypeError DestructureOfUndefined)"
| "destructureParams (Some JNull) = Inl (TypeError DestructureOfNull)"
| "destructureParams (Some p) =
     bindE (getProp (Some p) ''name'') (\<lambda>name.
     bindE (getProp (Some p) ''arguments'') (\<lambda>args. Inr (name, args)))"

definition textContent :: "string \<Rightarrow> 'n json" where
  "textContent t = JArr [JObj [(''type'', JStr ''text''), (''text'', JStr t)]]"

definition handleToolsCall :: "'n runtime \<Rightarrow> 'n json \<Rightarrow> exn + 'n response" where
  "handleToolsCall rt request =
     bindE (getProp (Some request) ''params'') (\<lambda>params.
     bindE (destructureParams params) (\<lambda>(name, args).
     bindE (log rt (Some (JObj (objectOf [(''tool'', name), (''args'', args)])))) (\<lambda>_.
       if name = Some (JStr ''search'') then
         bindE (getProp args ''query'') (\<lambda>q.
         bindE (toStrU rt q) (\<lambda>qs.
         bindE (getProp (Some request) ''id'') (\<lambda>i.
           Inr (createJsonRpcResponse i
             (Some (JObj [(''content'', textContent (searchText qs))])) None))))
       else if name = Some (JStr ''retrieve'') then
         bindE (getProp args ''type'') (\<lambda>t1.
         bindE (toStrU rt t1) (\<lambda>ts1.
         bindE (getProp args ''id'') (\<lambda>a.
         bindE (toStrU rt a) (\<lambda>as.
         bindE (getProp args ''type'') (\<lambda>t2.
         bindE (toStrU rt t2) (\<lambda>ts2.
         bindE (getProp (Some request) ''id'') (\<lambda>i.
           Inr (createJsonRpcResponse i
             (Some (JObj [(''content'', textContent (retrieveText ts1 as ts2 (isoNow rt)))]))
             None))))))))
       else
         bindE (getProp (Some request) ''id'') (\<lambda>i.
         bindE (toStrU rt name) (\<lambda>ns.
           Inr (createJsonRpcResponse i (Some JNull)
             (Some \<lparr>code = -32601, message = ''Method not found: '' @ ns, data = None\<rparr>)))))))"

definition handlePing :: "'n json \<Rightarrow> exn + 'n response" where
  "handlePing request =
     bindE (getProp (Some request) ''id'') (\<lambda>i.
       Inr (createJsonRpcResponse i (Some (JObj [])) None))"

text \<open>
  The body of the \<^verbatim>\<open>try\<close> of \<^verbatim>\<open>processJsonRpcMessage\<close>: \<open>Inl\<close> is an exception that
  reaches the \<^verbatim>\<open>catch\<close>.
\<close>

definition tryBody :: "'n runtime \<Rightarrow> 'n json \<Rightarrow> exn + 'n response" where
  "tryBody rt msg =
     bindE (getProp (Some msg) ''method'') (\<lambda>logged_method.
     bindE (getProp (Some msg) ''id'') (\<lambda>logged_id.
     bindE (log rt (Some (JObj (objectOf [(''method'', logged_method), (''id'', logged_id)]))))
       (\<lambda>_.
     bindE (getProp (Some msg) ''jsonrpc'') (\<lambda>version.
       if version \<noteq> Some (JStr ''2.0'') then
         bindE (getProp (Some msg) ''id'') (\<lambda>i.
           Inr (createJsonRpcResponse i (Some JNull)
             (Some \<lparr>code = -32600,
                    message = ''Invalid Request: jsonrpc must be '' @ sq @ ''2.0'' @ sq,
                    data = None\<rparr>)))
       else
         bindE (getProp (Some msg) ''method'') (\<lambda>meth.
           if meth = Some (JStr ''initialize'') then handleInitialize rt msg
           else if meth = Some (JStr ''tools/list'') then handleToolsList msg
           else if meth = Some (JStr ''tools/call'') then handleToolsCall rt msg
           else if meth = Some (JStr ''ping'') then handlePing msg
           else
             bindE (getProp (Some msg) ''id'') (\<lambda>i.
             bindE (toStrU rt meth) (\<lambda>ms.
               Inr (createJsonRpcResponse i (Some JNull)
                 (Some \<lparr>code = -32601, message = ''Method not found: '' @ ms,
                        data = None\<rparr>)))))))))"

text \<open>
  \<^verbatim>\<open>processJsonRpcMessage\<close>: the \<^verbatim>\<open>catch\<close> logs the text \<^verbatim>\<open>error.message\<close> and builds the
  response from \<^verbatim>\<open>message.id\<close>, a property read of its own, outside the \<^verbatim>\<open>try\<close>. \<open>Inl\<close> is
  an exception that leaves the function.
\<close>

definition processJsonRpcMessage :: "'n runtime \<Rightarrow> 'n json \<Rightarrow> exn + 'n response" where
  "processJsonRpcMessage rt msg =
     (case tryBody rt msg of
        Inr r \<Rightarrow> Inr r
      | Inl e \<Rightarrow>
          bindE (getProp (Some msg) ''id'') (\<lambda>i.
            Inr (createJsonRpcResponse i (Some JNull)
              (Some \<lparr>code = -32603, message = ''Internal error'',
                     data = Some (errMessage rt e)\<rparr>))))"

section \<open>Responses as JavaScript objects\<close>

text \<open>
  The response as the object \<^verbatim>\<open>JSON.stringify\<close> is given: the properties in insertion
  order, the id left out when it is undefined.
\<close>

definition errorToJson :: "'n runtime \<Rightarrow> rpc_error \<Rightarrow> 'n json" where
  "errorToJson rt e =
     JObj ([(''code'', JNum (numOfInt rt (code e))), (''message'', JStr (message e))]
           @ (case data e of None \<Rightarrow> [] | Some d \<Rightarrow> [(''data'', JStr d)]))"

definition responseJson :: "'n runtime \<Rightarrow> 'n response \<Rightarrow> 'n json" where
  "responseJson rt r =
     JObj ([(''jsonrpc'', JStr (jsonrpc r))]
           @ (case rpc_id r of None \<Rightarrow> [] | Some i \<Rightarrow> [(''id'', i)])
           @ (case error r of None \<Rightarrow> [] | Some e \<Rightarrow> [(''error'', errorToJson rt e)])
           @ (case result r of None \<Rightarrow> [] | Some v \<Rightarrow> [(''result'', v)]))"

text \<open>The nesting of the result of a response (none when it has an error instead).\<close>

definition bodyDepth :: "'n response \<Rightarrow> nat" where
  "bodyDepth r = (case result r of None \<Rightarrow> 0 | Some v \<Rightarrow> jsonDepth v)"

section \<open>Transport: the response stream and the two handlers of \<^verbatim>\<open>/sse\<close>\<close>

text \<open>
  A frame is what one \<^verbatim>\<open>res.write\<close> sends: \<^verbatim>\<open>data: <JSON.stringify(payload)>\n\n\<close> for a
  response or a notification, or the comment \<^verbatim>\<open>: heartbeat\n\n\<close>. The response stream
  \<^verbatim>\<open>res\<close> is the frames sent so far, whether \<^verbatim>\<open>res.end()\<close> was called, and whether the
  connection under it is gone (the peer disconnected, or the stream failed); a write
  after either sends nothing.
\<close>

datatype 'n payload = Envelope "'n response" | Notification "'n json"

datatype 'n frame = DataFrame "'n payload" | HeartbeatFrame

record 'n stream =
  written :: "'n frame list"
  ended :: bool
  destroyed :: bool

definition newStream :: "'n stream" where
  "newStream = \<lparr>written = [], ended = False, destroyed = False\<rparr>"

definition resWrite :: "'n frame \<Rightarrow> 'n stream \<Rightarrow> 'n stream" where
  "resWrite f st =
     (if ended st \<or> destroyed st then st else st\<lparr>written := written st @ [f]\<rparr>)"

definition resEnd :: "'n stream \<Rightarrow> 'n stream" where
  "resEnd st = st\<lparr>ended := True\<rparr>"

text \<open>
  \<^verbatim>\<open>sendSSE\<close> serialises the payload and writes the frame inside a \<^verbatim>\<open>try\<close>; when
  \<^verbatim>\<open>JSON.stringify\<close> raises, the \<^verbatim>\<open>catch\<close> logs the message and nothing is written.
\<close>

fun payloadJson :: "'n runtime \<Rightarrow> 'n payload \<Rightarrow> 'n json" where
  "payloadJson rt (Envelope r) = responseJson rt r"
| "payloadJson rt (Notification n) = n"

definition sendSSE :: "'n runtime \<Rightarrow> 'n payload \<Rightarrow> 'n stream \<Rightarrow> 'n stream" where
  "sendSSE rt p st =
     (case stringify rt (payloadJson rt p) of
        Inr _ \<Rightarrow> resWrite (DataFrame p) st
      | Inl e \<Rightarrow> st)"

text \<open>
  \<^verbatim>\<open>POST /sse\<close>, the handler of the request's \<^verbatim>\<open>end\<close> event. \<open>parsed\<close> is what
  \<^verbatim>\<open>JSON.parse(body)\<close> did: \<open>Inl\<close> its exception, \<open>Inr\<close> its value. The result is the
  stream and, when the handler set one, the delay of the timer that ends the stream.
  The \<^verbatim>\<open>catch\<close> takes every exception of the \<^verbatim>\<open>try\<close>: of the parser and of
  \<^verbatim>\<open>processJsonRpcMessage\<close> alike.
\<close>

definition postOnEnd ::
  "'n runtime \<Rightarrow> exn + 'n json \<Rightarrow> 'n stream \<Rightarrow> 'n stream \<times> nat option" where
  "postOnEnd rt parsed res =
     (case bindE parsed (processJsonRpcMessage rt) of
        Inr response \<Rightarrow> (sendSSE rt (Envelope response) res, Some 2500)
      | Inl e \<Rightarrow>
          (resEnd (sendSSE rt (Envelope (createJsonRpcResponse (Some JNull) (Some JNull)
              (Some \<lparr>code = -32700, message = ''Parse error'', data = None\<rparr>))) res),
           None))"

text \<open>
  \<^verbatim>\<open>GET /sse\<close>. The session is the stream, the time in milliseconds since the request
  was accepted, the timers that are pending with the time each is due, and a log of
  the timer callbacks that ran: when, which, and whether the stream was torn down by
  then.
\<close>

datatype timer = ListChangedTimeout | HeartbeatInterval | AutoCloseTimeout

record 'n session =
  res :: "'n stream"
  clock :: nat
  timers :: "(nat \<times> timer) list"
  ran :: "(nat \<times> timer \<times> bool) list"

definition tornDown :: "'n session \<Rightarrow> bool" where
  "tornDown s = (ended (res s) \<or> destroyed (res s))"

definition clearInterval :: "timer \<Rightarrow> 'n session \<Rightarrow> 'n session" where
  "clearInterval k s = s\<lparr>timers := filter (\<lambda>(due, k'). k' \<noteq> k) (timers s)\<rparr>"

definition getSse :: "'n runtime \<Rightarrow> 'n session" where
  "getSse rt =
     \<lparr>res = sendSSE rt (Notification
              (createJsonRpcNotification ''notification/initialized'' (Some (JObj [])))) newStream,
      clock = 0,
      timers = [(100, ListChangedTimeout), (25000, HeartbeatInterval),
                (50000, AutoCloseTimeout)],
      ran = []\<rparr>"

text \<open>The handlers of the request's \<^verbatim>\<open>close\<close> and \<^verbatim>\<open>error\<close> events.\<close>

definition onClose :: "'n session \<Rightarrow> 'n session" where
  "onClose s = clearInterval HeartbeatInterval s"

definition onError :: "'n session \<Rightarrow> 'n session" where
  "onError s = clearInterval HeartbeatInterval s"

text \<open>
  The two events themselves: the connection is gone, then the handler runs.
\<close>

definition destroy :: "'n session \<Rightarrow> 'n session" where
  "destroy s = s\<lparr>res := (res s)\<lparr>destroyed := True\<rparr>\<rparr>"

definition peerCloses :: "'n session \<Rightarrow> 'n session" where
  "peerCloses s = onClose (destroy s)"

definition streamFails :: "'n session \<Rightarrow> 'n session" where
  "streamFails s = onError (destroy s)"

text \<open>The three timer callbacks.\<close>

fun callback :: "'n runtime \<Rightarrow> timer \<Rightarrow> 'n session \<Rightarrow> 'n session" where
  "callback rt ListChangedTimeout s =
     s\<lparr>res := sendSSE rt (Notification
           (createJsonRpcNotification ''notification/tools/list_changed'' (Some (JObj []))))
           (res s)\<rparr>"
| "callback rt HeartbeatInterval s = s\<lparr>res := resWrite HeartbeatFrame (res s)\<rparr>"
| "callback rt AutoCloseTimeout s =
     (let s' = clearInterval HeartbeatInterval s in s'\<lparr>res := resEnd (res s')\<rparr>)"

text \<open>
  The event loop. A timer that is due leaves the pending list (an interval comes
  back 25000 ms later), the run is logged, and its callback runs. One tick is one
  millisecond: the timers due at the new time run in the order of the list, each
  only if no earlier callback of the tick cleared it.
\<close>

definition fire :: "'n runtime \<Rightarrow> timer \<Rightarrow> 'n session \<Rightarrow> 'n session" where
  "fire rt k s =
     callback rt k
       (s\<lparr>timers := remove1 (clock s, k) (timers s)
                    @ (if k = HeartbeatInterval then [(clock s + 25000, k)] else []),
          ran := ran s @ [(clock s, k, tornDown s)]\<rparr>)"

fun fireDue :: "'n runtime \<Rightarrow> timer list \<Rightarrow> 'n session \<Rightarrow> 'n session" where
  "fireDue rt [] s = s"
| "fireDue rt (k # ks) s =
     fireDue rt ks (if (clock s, k) \<in> set (timers s) then fire rt k s else s)"

definition tick :: "'n runtime \<Rightarrow> 'n session \<Rightarrow> 'n session" where
  "tick rt s =
     (let s' = s\<lparr>clock := clock s + 1\<rparr>
      in fireDue rt (map snd (filter (\<lambda>(due, k). due = clock s') (timers s'))) s')"

fun elapse :: "'n runtime \<Rightarrow> nat \<Rightarrow> 'n session \<Rightarrow> 'n session" where
  "elapse rt 0 s = s"
| "elapse rt (Suc n) s = elapse rt n (tick rt s)"

section \<open>What the peer reads\<close>

text \<open>
  The value a peer gets when it parses the text \<^verbatim>\<open>JSON.stringify\<close> has made of a
  value: strings, booleans, null, and the members of arrays and objects come back
  as they were; a number comes back as the runtime's \<open>reparseNum\<close> says, null when
  JSON has no way to write it.
\<close>

fun reparse :: "'n runtime \<Rightarrow> 'n json \<Rightarrow> 'n json" where
  "reparse rt (JNum n) = reparseNum rt n"
| "reparse rt (JArr xs) = JArr (map (reparse rt) xs)"
| "reparse rt (JObj kvs) = JObj (map (\<lambda>(k, v). (k, reparse rt v)) kvs)"
| "reparse rt v = v"

definition stringifyParse :: "'n runtime \<Rightarrow> 'n response \<Rightarrow> 'n json" where
  "stringifyParse rt r = reparse rt (responseJson rt r)"

section \<open>A runtime for evaluating examples\<close>

text \<open>
  Whole numbers and \<^verbatim>\<open>Infinity\<close> as the numbers, the messages of V8, and a
  \<^verbatim>\<open>JSON.stringify\<close> and a join that give up beyond 5000 levels.
\<close>

datatype exampleNum = Whole int | Infinity

function showNat :: "nat \<Rightarrow> string" where
  "showNat n =
     (if n < 10 then [char_of (48 + n)]
      else showNat (n div 10) @ [char_of (48 + n mod 10)])"
  by pat_completeness auto
termination
  by (relation "measure id") auto

definition showInt :: "int \<Rightarrow> string" where
  "showInt k = (if k < 0 then ''-'' @ showNat (nat (- k)) else showNat (nat k))"

fun showExampleNum :: "exampleNum \<Rightarrow> string" where
  "showExampleNum (Whole k) = showInt k"
| "showExampleNum Infinity = ''Infinity''"

fun reparseExampleNum :: "exampleNum \<Rightarrow> exampleNum json" where
  "reparseExampleNum (Whole k) = JNum (Whole k)"
| "reparseExampleNum Infinity = JNull"

fun v8Message :: "exn \<Rightarrow> string" where
  "v8Message (TypeError (ReadOfNull k)) =
     ''Cannot read properties of null (reading '' @ sq @ k @ sq @ '')''"
| "v8Message (TypeError (ReadOfUndefined k)) =
     ''Cannot read properties of undefined (reading '' @ sq @ k @ sq @ '')''"
| "v8Message (TypeError DestructureOfNull) =
     ''Cannot destructure property '' @ sq @ ''name'' @ sq @ '' of '' @ sq
     @ ''request.params'' @ sq @ '' as it is null.''"
| "v8Message (TypeError DestructureOfUndefined) =
     ''Cannot destructure property '' @ sq @ ''name'' @ sq @ '' of '' @ sq
     @ ''request.params'' @ sq @ '' as it is undefined.''"
| "v8Message (TypeError NotPrimitive) = ''Cannot convert object to primitive value''"
| "v8Message RangeError = ''Maximum call stack size exceeded''"
| "v8Message SyntaxError = ''Unexpected end of JSON input''"

definition exampleRuntime :: "exampleNum runtime" where
  "exampleRuntime =
     \<lparr>showNum = showExampleNum, numOfInt = Whole, reparseNum = reparseExampleNum,
      errMessage = v8Message, isoNow = ''2024-11-05T00:00:00.000Z'', deepest = 4992,
      deepestJoin = 4992\<rparr>"

text \<open>A value inside \<open>n\<close> arrays: \<^verbatim>\<open>[[[ ... v ... ]]]\<close>.\<close>

fun nested :: "nat \<Rightarrow> 'n json \<Rightarrow> 'n json" where
  "nested 0 v = v"
| "nested (Suc n) v = JArr [nested n v]"

section \<open>Basic facts\<close>

lemma bindE_Inr [simp]: "bindE (Inr x) f = f x"
  by (simp add: bindE_def)

lemma bindE_Inl [simp]: "bindE (Inl e) f = Inl e"
  by (simp add: bindE_def)

lemma bindE_eq_Inr: "bindE m f = Inr r \<longleftrightarrow> (\<exists>x. m = Inr x \<and> f x = Inr r)"
  by (cases m) simp_all

text \<open>A property read succeeds exactly on what is neither null nor undefined.\<close>

lemma getProp_Inr_nonnull: "getProp (Some m) k = Inr v \<Longrightarrow> m \<noteq> JNull"
  by (cases m) simp_all

lemma getProp_Some_total: "m \<noteq> JNull \<Longrightarrow> \<exists>v. getProp (Some m) k = Inr v"
  by (cases m) simp_all

lemma rpc_id_create [simp]: "rpc_id (createJsonRpcResponse i rs err) = i"
  by (simp add: createJsonRpcResponse_def split: option.splits)

lemma jsonrpc_create [simp]: "jsonrpc (createJsonRpcResponse i rs err) = ''2.0''"
  by (simp add: createJsonRpcResponse_def split: option.splits)

lemma create_error:
  "createJsonRpcResponse i rs (Some e) =
     \<lparr>jsonrpc = ''2.0'', rpc_id = i, result = None, error = Some e\<rparr>"
  by (simp add: createJsonRpcResponse_def)

lemma create_result:
  "createJsonRpcResponse i (Some v) None =
     \<lparr>jsonrpc = ''2.0'', rpc_id = i, result = Some v, error = None\<rparr>"
  by (simp add: createJsonRpcResponse_def)

subsection \<open>Serialising\<close>

lemma stringify_cases: "stringify rt v = Inr () \<or> stringify rt v = Inl RangeError"
  by (simp add: stringify_def)

lemma stringify_shallow: "jsonDepth v \<le> 8 \<Longrightarrow> stringify rt v = Inr ()"
  by (simp add: stringify_def)

lemma stringify_deep: "8 + deepest rt < jsonDepth v \<Longrightarrow> stringify rt v = Inl RangeError"
  by (simp add: stringify_def)

lemma log_cases: "log rt d = Inr () \<or> log rt d = Inl RangeError"
  by (cases d) (simp_all add: stringify_def)

lemma jsonDepth_nested: "jsonDepth (nested n v) = n + jsonDepth v"
  by (induction n) simp_all

lemma depthOfMembers_append:
  "depthOfMembers (xs @ ys) = max (depthOfMembers xs) (depthOfMembers ys)"
  by (induction xs) auto

lemma jsonDepth_errorToJson [simp]: "jsonDepth (errorToJson rt e) = 1"
  by (simp add: errorToJson_def split: option.splits)

subsection \<open>The dispatcher by cases\<close>

lemma process_of_tryBody_Inr:
  "tryBody rt m = Inr r \<Longrightarrow> processJsonRpcMessage rt m = Inr r"
  by (simp add: processJsonRpcMessage_def)

lemma process_of_tryBody_Inl:
  "tryBody rt m = Inl e \<Longrightarrow> getProp (Some m) ''id'' = Inr i \<Longrightarrow>
   processJsonRpcMessage rt m =
     Inr \<lparr>jsonrpc = ''2.0'', rpc_id = i, result = None,
          error = Some \<lparr>code = -32603, message = ''Internal error'',
                        data = Some (errMessage rt e)\<rparr>\<rparr>"
  by (simp add: processJsonRpcMessage_def create_error)

text \<open>The first statement of the \<^verbatim>\<open>try\<close>: the log of the method and the id.\<close>

lemma tryBody_entry_log_raises:
  assumes "getProp (Some m) ''method'' = Inr meth"
    and "getProp (Some m) ''id'' = Inr i"
    and "log rt (Some (JObj (objectOf [(''method'', meth), (''id'', i)]))) = Inl e"
  shows "tryBody rt m = Inl e"
  using assms by (simp add: tryBody_def)

lemma tryBody_invalid_version:
  assumes "getProp (Some m) ''method'' = Inr meth"
    and "getProp (Some m) ''id'' = Inr i"
    and "log rt (Some (JObj (objectOf [(''method'', meth), (''id'', i)]))) = Inr ()"
    and "getProp (Some m) ''jsonrpc'' = Inr v" and "v \<noteq> Some (JStr ''2.0'')"
  shows "tryBody rt m =
     Inr \<lparr>jsonrpc = ''2.0'', rpc_id = i, result = None,
          error = Some \<lparr>code = -32600,
                        message = ''Invalid Request: jsonrpc must be '' @ sq @ ''2.0'' @ sq,
                        data = None\<rparr>\<rparr>"
  using assms by (simp add: tryBody_def create_error)

lemma tryBody_valid:
  assumes "getProp (Some m) ''method'' = Inr meth"
    and "getProp (Some m) ''id'' = Inr i"
    and "log rt (Some (JObj (objectOf [(''method'', meth), (''id'', i)]))) = Inr ()"
    and "getProp (Some m) ''jsonrpc'' = Inr (Some (JStr ''2.0''))"
  shows "tryBody rt m =
     (if meth = Some (JStr ''initialize'') then handleInitialize rt m
      else if meth = Some (JStr ''tools/list'') then handleToolsList m
      else if meth = Some (JStr ''tools/call'') then handleToolsCall rt m
      else if meth = Some (JStr ''ping'') then handlePing m
      else
        bindE (toStrU rt meth) (\<lambda>ms.
          Inr (createJsonRpcResponse i (Some JNull)
            (Some \<lparr>code = -32601, message = ''Method not found: '' @ ms,
                   data = None\<rparr>))))"
  using assms by (simp add: tryBody_def)

subsection \<open>The id every handler echoes\<close>

lemma handleInitialize_id:
  "handleInitialize rt m = Inr r \<Longrightarrow> getProp (Some m) ''id'' = Inr (rpc_id r)"
  by (auto simp: handleInitialize_def bindE_eq_Inr)

lemma handleToolsList_id:
  "handleToolsList m = Inr r \<Longrightarrow> getProp (Some m) ''id'' = Inr (rpc_id r)"
  by (auto simp: handleToolsList_def bindE_eq_Inr)

lemma handlePing_id:
  "handlePing m = Inr r \<Longrightarrow> getProp (Some m) ''id'' = Inr (rpc_id r)"
  by (auto simp: handlePing_def bindE_eq_Inr)

lemma handleToolsCall_id:
  "handleToolsCall rt m = Inr r \<Longrightarrow> getProp (Some m) ''id'' = Inr (rpc_id r)"
  by (auto simp: handleToolsCall_def bindE_eq_Inr split: if_splits)

lemma tryBody_id:
  "tryBody rt m = Inr r \<Longrightarrow> getProp (Some m) ''id'' = Inr (rpc_id r)"
  by (auto simp: tryBody_def bindE_eq_Inr split: if_splits
      dest: handleInitialize_id handleToolsList_id handlePing_id handleToolsCall_id)

subsection \<open>Every response of the dispatcher is well formed\<close>

lemma wellFormed_create [simp]: "wellFormed (createJsonRpcResponse i rs err)"
  by (simp add: wellFormed_def createJsonRpcResponse_def split: option.splits)

lemma handleToolsCall_wellFormed: "handleToolsCall rt m = Inr r \<Longrightarrow> wellFormed r"
  by (auto simp: handleToolsCall_def bindE_eq_Inr split: if_splits)

lemma tryBody_wellFormed: "tryBody rt m = Inr r \<Longrightarrow> wellFormed r"
  by (auto simp: tryBody_def handleInitialize_def handleToolsList_def handlePing_def
      bindE_eq_Inr split: if_splits dest: handleToolsCall_wellFormed)

lemma dispatcher_total_on_nonnull:
  assumes "m \<noteq> JNull"
  shows "\<exists>r. processJsonRpcMessage rt m = Inr r \<and> wellFormed r
     \<and> getProp (Some m) ''id'' = Inr (rpc_id r)
     \<and> (\<forall>e. tryBody rt m = Inl e \<longrightarrow>
           error r = Some \<lparr>code = -32603, message = ''Internal error'',
                           data = Some (errMessage rt e)\<rparr>)"
proof -
  from assms obtain i where i: "getProp (Some m) ''id'' = Inr i"
    using getProp_Some_total by blast
  show ?thesis
  proof (cases "tryBody rt m")
    case (Inl e)
    then show ?thesis using i by (simp add: process_of_tryBody_Inl wellFormed_def)
  next
    case (Inr r)
    then show ?thesis
      using tryBody_wellFormed [OF Inr] tryBody_id [OF Inr]
      by (simp add: process_of_tryBody_Inr)
  qed
qed

subsection \<open>What the server builds is shallow\<close>

lemma jsonDepth_responseJson:
  "jsonDepth (responseJson rt r) =
     Suc (max (case rpc_id r of None \<Rightarrow> 0 | Some i \<Rightarrow> jsonDepth i)
            (max (case error r of None \<Rightarrow> 0 | Some e \<Rightarrow> 1) (bodyDepth r)))"
  by (simp add: responseJson_def bodyDepth_def depthOfMembers_append split: option.splits)

lemma bodyDepth_error [simp]: "bodyDepth (createJsonRpcResponse i rs (Some e)) = 0"
  by (simp add: bodyDepth_def create_error)

lemma bodyDepth_result [simp]: "bodyDepth (createJsonRpcResponse i (Some v) None) = jsonDepth v"
  by (simp add: bodyDepth_def create_result)

lemma jsonDepth_TOOLS: "depthOfElems (TOOLS :: 'n json list) = 5"
  by (simp add: TOOLS_def)

lemma handleToolsCall_bodyDepth: "handleToolsCall rt m = Inr r \<Longrightarrow> bodyDepth r \<le> 7"
  by (auto simp: handleToolsCall_def bindE_eq_Inr textContent_def split: if_splits)

lemma tryBody_bodyDepth: "tryBody rt m = Inr r \<Longrightarrow> bodyDepth r \<le> 7"
  by (auto simp: tryBody_def handleInitialize_def handleToolsList_def handlePing_def
      bindE_eq_Inr jsonDepth_TOOLS SERVER_INFO_def split: if_splits
      dest: handleToolsCall_bodyDepth)

lemma process_bodyDepth: "processJsonRpcMessage rt m = Inr r \<Longrightarrow> bodyDepth r \<le> 7"
  by (auto simp: processJsonRpcMessage_def bindE_eq_Inr split: sum.splits
      dest: tryBody_bodyDepth)

text \<open>A response of the dispatcher is written unless its id is nested too deep.\<close>

lemma sendSSE_response:
  assumes "processJsonRpcMessage rt m = Inr r"
    and "(case rpc_id r of None \<Rightarrow> 0 | Some i \<Rightarrow> jsonDepth i) \<le> 7"
  shows "sendSSE rt (Envelope r) st = resWrite (DataFrame (Envelope r)) st"
proof -
  have "bodyDepth r \<le> 7" using assms(1) by (rule process_bodyDepth)
  then have "jsonDepth (responseJson rt r) \<le> 8"
    using assms(2) by (simp add: jsonDepth_responseJson split: option.splits)
  then show ?thesis by (simp add: sendSSE_def stringify_shallow)
qed

lemma sendSSE_notification:
  "sendSSE rt (Notification (createJsonRpcNotification meth (Some (JObj [])))) st =
     resWrite (DataFrame (Notification (createJsonRpcNotification meth (Some (JObj []))))) st"
  by (simp add: sendSSE_def createJsonRpcNotification_def stringify_shallow)

lemma sendSSE_parse_error:
  "sendSSE rt (Envelope \<lparr>jsonrpc = ''2.0'', rpc_id = Some JNull, result = None,
       error = Some \<lparr>code = -32700, message = ''Parse error'', data = None\<rparr>\<rparr>) st =
   resWrite (DataFrame (Envelope \<lparr>jsonrpc = ''2.0'', rpc_id = Some JNull, result = None,
       error = Some \<lparr>code = -32700, message = ''Parse error'', data = None\<rparr>\<rparr>)) st"
  by (simp add: sendSSE_def stringify_shallow jsonDepth_responseJson bodyDepth_def)

subsection \<open>\<^verbatim>\<open>tools/call\<close> by cases\<close>

lemma destructureParams_Some:
  assumes "getProp (Some p) ''name'' = Inr name" and "getProp (Some p) ''arguments'' = Inr args"
  shows "destructureParams (Some p) = Inr (name, args)"
  using assms by (cases p) simp_all

lemma tools_call_without_params:
  assumes "getProp (Some m) ''params'' = Inr None"
  shows "handleToolsCall rt m = Inl (TypeError DestructureOfUndefined)"
  using assms by (simp add: handleToolsCall_def)

lemma tools_call_null_params:
  assumes "getProp (Some m) ''params'' = Inr (Some JNull)"
  shows "handleToolsCall rt m = Inl (TypeError DestructureOfNull)"
  using assms by (simp add: handleToolsCall_def)

lemma tools_call_search_without_arguments:
  assumes "getProp (Some m) ''params'' = Inr (Some p)"
    and "getProp (Some p) ''name'' = Inr (Some (JStr ''search''))"
    and "getProp (Some p) ''arguments'' = Inr None"
  shows "handleToolsCall rt m = Inl (TypeError (ReadOfUndefined ''query''))"
  using assms by (simp add: handleToolsCall_def destructureParams_Some stringify_shallow)

lemma tools_call_retrieve_without_arguments:
  assumes "getProp (Some m) ''params'' = Inr (Some p)"
    and "getProp (Some p) ''name'' = Inr (Some (JStr ''retrieve''))"
    and "getProp (Some p) ''arguments'' = Inr None"
  shows "handleToolsCall rt m = Inl (TypeError (ReadOfUndefined ''type''))"
  using assms by (simp add: handleToolsCall_def destructureParams_Some stringify_shallow)

text \<open>
  What the dispatcher does with a method or a tool it does not know, when the logs
  before it serialise and the value can be rendered into the message: the error
  -32601.
\<close>

lemma unknown_tool:
  assumes "getProp (Some m) ''params'' = Inr (Some p)"
    and "getProp (Some p) ''name'' = Inr name"
    and "getProp (Some p) ''arguments'' = Inr args"
    and "log rt (Some (JObj (objectOf [(''tool'', name), (''args'', args)]))) = Inr ()"
    and "name \<notin> {Some (JStr ''search''), Some (JStr ''retrieve'')}"
    and "getProp (Some m) ''id'' = Inr i"
  shows "handleToolsCall rt m =
     bindE (toStrU rt name) (\<lambda>ns.
       Inr (createJsonRpcResponse i (Some JNull)
         (Some \<lparr>code = -32601, message = ''Method not found: '' @ ns, data = None\<rparr>)))"
proof -
  have "destructureParams (Some p) = Inr (name, args)"
    using assms(2,3) by (rule destructureParams_Some)
  with assms show ?thesis by (simp add: handleToolsCall_def)
qed

lemma unknown_method_when_logged:
  assumes "getProp (Some m) ''method'' = Inr meth"
    and "getProp (Some m) ''id'' = Inr i"
    and "log rt (Some (JObj (objectOf [(''method'', meth), (''id'', i)]))) = Inr ()"
    and "getProp (Some m) ''jsonrpc'' = Inr (Some (JStr ''2.0''))"
    and "meth \<notin> {Some (JStr ''initialize''), Some (JStr ''tools/list''),
                 Some (JStr ''tools/call''), Some (JStr ''ping'')}"
    and "toStrU rt meth = Inr ms"
  shows "processJsonRpcMessage rt m =
     Inr \<lparr>jsonrpc = ''2.0'', rpc_id = i, result = None,
          error = Some \<lparr>code = -32601, message = ''Method not found: '' @ ms,
                        data = None\<rparr>\<rparr>"
  using assms by (simp add: process_of_tryBody_Inr tryBody_valid create_error)

lemma unknown_tool_when_logged:
  assumes "getProp (Some m) ''method'' = Inr (Some (JStr ''tools/call''))"
    and "getProp (Some m) ''id'' = Inr i"
    and "log rt (Some (JObj (objectOf [(''method'', Some (JStr ''tools/call'')), (''id'', i)])))
           = Inr ()"
    and "getProp (Some m) ''jsonrpc'' = Inr (Some (JStr ''2.0''))"
    and "getProp (Some m) ''params'' = Inr (Some p)"
    and "getProp (Some p) ''name'' = Inr name"
    and "getProp (Some p) ''arguments'' = Inr args"
    and "log rt (Some (JObj (objectOf [(''tool'', name), (''args'', args)]))) = Inr ()"
    and "name \<notin> {Some (JStr ''search''), Some (JStr ''retrieve'')}"
    and "toStrU rt name = Inr ns"
  shows "processJsonRpcMessage rt m =
     Inr \<lparr>jsonrpc = ''2.0'', rpc_id = i, result = None,
          error = Some \<lparr>code = -32601, message = ''Method not found: '' @ ns,
                        data = None\<rparr>\<rparr>"
proof -
  have "tryBody rt m = handleToolsCall rt m"
    using assms(1-4) by (simp add: tryBody_valid)
  also have "\<dots> = Inr (createJsonRpcResponse i (Some JNull)
         (Some \<lparr>code = -32601, message = ''Method not found: '' @ ns, data = None\<rparr>))"
    using assms unknown_tool [of m p name args rt i] by simp
  finally show ?thesis by (simp add: process_of_tryBody_Inr create_error)
qed

text \<open>
  What the dispatcher does with a version other than \<^verbatim>\<open>"2.0"\<close>, and with
  \<^verbatim>\<open>tools/list\<close>, when the log before the version test serialises.
\<close>

lemma version_mismatch_when_logged:
  assumes "getProp (Some m) ''method'' = Inr meth"
    and "getProp (Some m) ''id'' = Inr i"
    and "log rt (Some (JObj (objectOf [(''method'', meth), (''id'', i)]))) = Inr ()"
    and "getProp (Some m) ''jsonrpc'' = Inr v" and "v \<noteq> Some (JStr ''2.0'')"
  shows "processJsonRpcMessage rt m =
      Inr \<lparr>jsonrpc = ''2.0'', rpc_id = i, result = None,
           error = Some \<lparr>code = -32600,
                         message = ''Invalid Request: jsonrpc must be '' @ sq @ ''2.0'' @ sq,
                         data = None\<rparr>\<rparr>"
  using assms by (simp add: process_of_tryBody_Inr tryBody_invalid_version)

lemma tools_list_when_logged:
  assumes "getProp (Some m) ''method'' = Inr (Some (JStr ''tools/list''))"
    and "getProp (Some m) ''id'' = Inr i"
    and "log rt (Some (JObj (objectOf [(''method'', Some (JStr ''tools/list'')), (''id'', i)])))
           = Inr ()"
    and "getProp (Some m) ''jsonrpc'' = Inr (Some (JStr ''2.0''))"
  shows "processJsonRpcMessage rt m =
      Inr \<lparr>jsonrpc = ''2.0'', rpc_id = i,
           result = Some (JObj [(''tools'', JArr TOOLS)]), error = None\<rparr>"
proof -
  have "tryBody rt m = handleToolsList m"
    using assms by (simp add: tryBody_valid)
  then show ?thesis
    using assms(2) by (simp add: process_of_tryBody_Inr handleToolsList_def create_result)
qed

subsection \<open>The event loop while no timer is due\<close>

lemma tick_idle:
  assumes "\<forall>(d, k) \<in> set (timers s). d \<noteq> clock s + 1"
  shows "tick rt s = s\<lparr>clock := clock s + 1\<rparr>"
proof -
  have "filter (\<lambda>(due, k). due = clock s + 1) (timers s) = []"
    using assms by (auto simp: filter_empty_conv)
  then show ?thesis by (simp add: tick_def Let_def)
qed

lemma elapse_idle:
  "\<forall>(d, k) \<in> set (timers s). d \<le> clock s \<or> clock s + n < d \<Longrightarrow>
   elapse rt n s = s\<lparr>clock := clock s + n\<rparr>"
proof (induction n arbitrary: s)
  case 0
  then show ?case by simp
next
  case (Suc n)
  have idle: "\<forall>(d, k) \<in> set (timers s). d \<noteq> clock s + 1"
    using Suc.prems by fastforce
  have step: "tick rt s = s\<lparr>clock := clock s + 1\<rparr>"
    using idle by (rule tick_idle)
  have "\<forall>(d, k) \<in> set (timers (s\<lparr>clock := clock s + 1\<rparr>)).
          d \<le> clock (s\<lparr>clock := clock s + 1\<rparr>) \<or> clock (s\<lparr>clock := clock s + 1\<rparr>) + n < d"
    using Suc.prems by fastforce
  then have "elapse rt n (s\<lparr>clock := clock s + 1\<rparr>) = s\<lparr>clock := clock s + 1 + n\<rparr>"
    using Suc.IH [of "s\<lparr>clock := clock s + 1\<rparr>"] by simp
  with step show ?case by simp
qed

lemma elapse_Suc_end: "elapse rt (Suc n) s = tick rt (elapse rt n s)"
  by (induction n arbitrary: s) simp_all

lemma elapse_add: "elapse rt (a + b) s = elapse rt b (elapse rt a s)"
  by (induction a arbitrary: s) simp_all

subsection \<open>Two timelines of a \<^verbatim>\<open>GET /sse\<close> session\<close>

lemma getSse_eq:
  "getSse rt =
     \<lparr>res = \<lparr>written = [DataFrame (Notification
               (createJsonRpcNotification ''notification/initialized'' (Some (JObj []))))],
             ended = False, destroyed = False\<rparr>,
      clock = 0,
      timers = [(100, ListChangedTimeout), (25000, HeartbeatInterval),
                (50000, AutoCloseTimeout)],
      ran = []\<rparr>"
  by (simp add: getSse_def sendSSE_notification resWrite_def newStream_def)

text \<open>
  Left alone, the session sends the two notifications and one heartbeat, and ends
  itself at 50000 ms; every callback runs on a live stream.
\<close>

lemma sse_untouched:
  "elapse rt 50000 (getSse rt) =
     \<lparr>res = \<lparr>written =
               [DataFrame (Notification
                  (createJsonRpcNotification ''notification/initialized'' (Some (JObj [])))),
                DataFrame (Notification
                  (createJsonRpcNotification ''notification/tools/list_changed'' (Some (JObj [])))),
                HeartbeatFrame],
             ended = True, destroyed = False\<rparr>,
      clock = 50000,
      timers = [],
      ran = [(100, ListChangedTimeout, False), (25000, HeartbeatInterval, False),
             (50000, AutoCloseTimeout, False)]\<rparr>"
proof -
  let ?s0 = "getSse rt"
  have a: "elapse rt 99 ?s0 = ?s0\<lparr>clock := 99\<rparr>"
    using elapse_idle [of ?s0 99 rt] by (simp add: getSse_eq)
  define s100 where "s100 = tick rt (?s0\<lparr>clock := 99\<rparr>)"
  have s100: "s100 = \<lparr>res = \<lparr>written =
               [DataFrame (Notification
                  (createJsonRpcNotification ''notification/initialized'' (Some (JObj [])))),
                DataFrame (Notification
                  (createJsonRpcNotification ''notification/tools/list_changed'' (Some (JObj []))))],
             ended = False, destroyed = False\<rparr>,
      clock = 100,
      timers = [(25000, HeartbeatInterval), (50000, AutoCloseTimeout)],
      ran = [(100, ListChangedTimeout, False)]\<rparr>"
    unfolding s100_def
    by (simp add: getSse_eq tick_def fire_def tornDown_def sendSSE_notification resWrite_def)
  have b: "elapse rt 24899 s100 = s100\<lparr>clock := 24999\<rparr>"
    using elapse_idle [of s100 24899 rt] unfolding s100 by simp
  define s25000 where "s25000 = tick rt (s100\<lparr>clock := 24999\<rparr>)"
  have s25000: "s25000 = \<lparr>res = \<lparr>written =
               [DataFrame (Notification
                  (createJsonRpcNotification ''notification/initialized'' (Some (JObj [])))),
                DataFrame (Notification
                  (createJsonRpcNotification ''notification/tools/list_changed'' (Some (JObj [])))),
                HeartbeatFrame],
             ended = False, destroyed = False\<rparr>,
      clock = 25000,
      timers = [(50000, AutoCloseTimeout), (50000, HeartbeatInterval)],
      ran = [(100, ListChangedTimeout, False), (25000, HeartbeatInterval, False)]\<rparr>"
    unfolding s25000_def s100
    by (simp add: tick_def fire_def tornDown_def resWrite_def)
  have c: "elapse rt 24999 s25000 = s25000\<lparr>clock := 49999\<rparr>"
    using elapse_idle [of s25000 24999 rt] unfolding s25000 by simp
  have "elapse rt 50000 ?s0 = elapse rt 49900 (elapse rt 100 ?s0)"
    using elapse_add [of rt 100 49900 ?s0] by simp
  also have "elapse rt 100 ?s0 = s100"
    using elapse_Suc_end [of rt 99 ?s0] unfolding a s100_def by simp
  also have "elapse rt 49900 s100 = elapse rt 25000 (elapse rt 24900 s100)"
    using elapse_add [of rt 24900 25000 s100] by simp
  also have "elapse rt 24900 s100 = s25000"
    using elapse_Suc_end [of rt 24899 s100] unfolding b s25000_def by simp
  also have "elapse rt 25000 s25000 = tick rt (s25000\<lparr>clock := 49999\<rparr>)"
    using elapse_Suc_end [of rt 24999 s25000] unfolding c by simp
  finally show ?thesis
    unfolding s25000
    by (simp add: tick_def fire_def tornDown_def resEnd_def clearInterval_def)
qed

text \<open>The peer disconnects 50 ms after the session opened.\<close>

lemma sse_first_50ms: "elapse rt 50 (getSse rt) = (getSse rt)\<lparr>clock := 50\<rparr>"
  using elapse_idle [of "getSse rt" 50 rt] by (simp add: getSse_eq)

lemma sse_closed_at_50ms:
  "peerCloses (elapse rt 50 (getSse rt)) =
     \<lparr>res = \<lparr>written = [DataFrame (Notification
               (createJsonRpcNotification ''notification/initialized'' (Some (JObj []))))],
             ended = False, destroyed = True\<rparr>,
      clock = 50,
      timers = [(100, ListChangedTimeout), (50000, AutoCloseTimeout)],
      ran = []\<rparr>"
  unfolding sse_first_50ms
  by (simp add: peerCloses_def onClose_def destroy_def clearInterval_def getSse_eq)

lemma sse_closed_at_99ms:
  "elapse rt 49 (peerCloses (elapse rt 50 (getSse rt))) =
     \<lparr>res = \<lparr>written = [DataFrame (Notification
               (createJsonRpcNotification ''notification/initialized'' (Some (JObj []))))],
             ended = False, destroyed = True\<rparr>,
      clock = 99,
      timers = [(100, ListChangedTimeout), (50000, AutoCloseTimeout)],
      ran = []\<rparr>"
  using elapse_idle [of "peerCloses (elapse rt 50 (getSse rt))" 49 rt]
  unfolding sse_closed_at_50ms by simp

lemma sse_closed_at_100ms:
  "elapse rt 50 (peerCloses (elapse rt 50 (getSse rt))) =
     \<lparr>res = \<lparr>written = [DataFrame (Notification
               (createJsonRpcNotification ''notification/initialized'' (Some (JObj []))))],
             ended = False, destroyed = True\<rparr>,
      clock = 100,
      timers = [(50000, AutoCloseTimeout)],
      ran = [(100, ListChangedTimeout, True)]\<rparr>"
proof -
  have "elapse rt 50 (peerCloses (elapse rt 50 (getSse rt)))
      = tick rt (elapse rt 49 (peerCloses (elapse rt 50 (getSse rt))))"
    using elapse_Suc_end [of rt 49 "peerCloses (elapse rt 50 (getSse rt))"] by simp
  then show ?thesis
    unfolding sse_closed_at_99ms
    by (simp add: tick_def fire_def tornDown_def sendSSE_notification resWrite_def)
qed

lemma sse_closed_at_50000ms:
  "elapse rt 49950 (peerCloses (elapse rt 50 (getSse rt))) =
     \<lparr>res = \<lparr>written = [DataFrame (Notification
               (createJsonRpcNotification ''notification/initialized'' (Some (JObj []))))],
             ended = True, destroyed = True\<rparr>,
      clock = 50000,
      timers = [],
      ran = [(100, ListChangedTimeout, True), (50000, AutoCloseTimeout, True)]\<rparr>"
proof -
  define s100 where "s100 = elapse rt 50 (peerCloses (elapse rt 50 (getSse rt)))"
  have s100: "s100 =
     \<lparr>res = \<lparr>written = [DataFrame (Notification
               (createJsonRpcNotification ''notification/initialized'' (Some (JObj []))))],
             ended = False, destroyed = True\<rparr>,
      clock = 100,
      timers = [(50000, AutoCloseTimeout)],
      ran = [(100, ListChangedTimeout, True)]\<rparr>"
    unfolding s100_def by (rule sse_closed_at_100ms)
  have idle: "elapse rt 49899 s100 = s100\<lparr>clock := 49999\<rparr>"
    using elapse_idle [of s100 49899 rt] unfolding s100 by simp
  have "elapse rt 49950 (peerCloses (elapse rt 50 (getSse rt))) = elapse rt 49900 s100"
    using elapse_add [of rt 50 49900 "peerCloses (elapse rt 50 (getSse rt))"]
    unfolding s100_def by simp
  also have "\<dots> = tick rt (s100\<lparr>clock := 49999\<rparr>)"
    using elapse_Suc_end [of rt 49899 s100] unfolding idle by simp
  finally show ?thesis
    unfolding s100
    by (simp add: tick_def fire_def tornDown_def resEnd_def clearInterval_def)
qed

subsection \<open>Examples\<close>

lemma example_search_call:
  "processJsonRpcMessage exampleRuntime
     (JObj [(''jsonrpc'', JStr ''2.0''), (''id'', JStr ''req-1''),
            (''method'', JStr ''tools/call''),
            (''params'', JObj [(''name'', JStr ''search''),
                               (''arguments'', JObj [(''query'', JStr ''leads'')])])]) =
   Inr \<lparr>jsonrpc = ''2.0'', rpc_id = Some (JStr ''req-1''),
        result = Some (JObj [(''content'', textContent (searchText ''leads''))]),
        error = None\<rparr>"
  by (simp add: processJsonRpcMessage_def tryBody_def handleToolsCall_def create_result
      stringify_shallow)

section \<open>The claims\<close>

text \<open>
  Claim C1. The dispatcher is meant to return a response for every message and to
  let no exception out. On the message null it does not: the first statement of the
  \<^verbatim>\<open>try\<close> reads \<^verbatim>\<open>message.method\<close> and raises, and the \<^verbatim>\<open>catch\<close> reads \<^verbatim>\<open>message.id\<close> and
  raises again, outside any \<^verbatim>\<open>try\<close>. The exception leaves \<^verbatim>\<open>processJsonRpcMessage\<close>; the
  handler of \<^verbatim>\<open>POST /sse\<close> takes it for a failure of the parser and answers the body
  \<^verbatim>\<open>null\<close>, which is valid JSON, with the parse error -32700. (On every other message the
  dispatcher is total: \<open>dispatcher_total_on_nonnull\<close>.)
\<close>

theorem dispatcher_throws_on_null_message:
  "processJsonRpcMessage rt JNull = Inl (TypeError (ReadOfNull ''id''))
   \<and> postOnEnd rt (Inr JNull) newStream =
       (\<lparr>written = [DataFrame (Envelope
            \<lparr>jsonrpc = ''2.0'', rpc_id = Some JNull, result = None,
             error = Some \<lparr>code = -32700, message = ''Parse error'', data = None\<rparr>\<rparr>)],
         ended = True, destroyed = False\<rparr>, None)"
  by (simp add: processJsonRpcMessage_def tryBody_def postOnEnd_def sendSSE_parse_error
      resWrite_def resEnd_def newStream_def create_error)

text \<open>
  Claim C2. When the stream of a \<^verbatim>\<open>GET /sse\<close> session is closed, all of its timers
  should be cancelled and no callback should run afterwards. The handlers of \<^verbatim>\<open>close\<close>
  and \<^verbatim>\<open>error\<close> clear the heartbeat only; the handles of the two timeouts are not
  kept. With the peer gone after 50 ms (a stream error does the same), the two
  timeouts are still pending, the notification callback runs at 100 ms and the
  auto-close callback at 50000 ms, both on the torn-down stream (nothing they write
  reaches the peer).
\<close>

theorem sse_timeouts_survive_close:
  "timers (peerCloses (elapse rt 50 (getSse rt))) =
     [(100, ListChangedTimeout), (50000, AutoCloseTimeout)]
   \<and> streamFails (elapse rt 50 (getSse rt)) = peerCloses (elapse rt 50 (getSse rt))
   \<and> elapse rt 49950 (peerCloses (elapse rt 50 (getSse rt))) =
     \<lparr>res = \<lparr>written = [DataFrame (Notification
               (createJsonRpcNotification ''notification/initialized'' (Some (JObj []))))],
             ended = True, destroyed = True\<rparr>,
      clock = 50000,
      timers = [],
      ran = [(100, ListChangedTimeout, True), (50000, AutoCloseTimeout, True)]\<rparr>"
proof (intro conjI)
  show "timers (peerCloses (elapse rt 50 (getSse rt))) =
     [(100, ListChangedTimeout), (50000, AutoCloseTimeout)]"
    by (simp add: sse_closed_at_50ms)
next
  show "streamFails (elapse rt 50 (getSse rt)) = peerCloses (elapse rt 50 (getSse rt))"
    by (simp add: streamFails_def peerCloses_def onError_def onClose_def)
next
  show "elapse rt 49950 (peerCloses (elapse rt 50 (getSse rt))) =
     \<lparr>res = \<lparr>written = [DataFrame (Notification
               (createJsonRpcNotification ''notification/initialized'' (Some (JObj []))))],
             ended = True, destroyed = True\<rparr>,
      clock = 50000,
      timers = [],
      ran = [(100, ListChangedTimeout, True), (50000, AutoCloseTimeout, True)]\<rparr>"
    by (rule sse_closed_at_50000ms)
qed

text \<open>
  Claim C3, as the code has it. Nothing in the server tells a notification from a
  request: a message without an id is dispatched like any other. The dispatcher
  returns a response whose id is undefined, \<^verbatim>\<open>POST /sse\<close> writes it as its one frame
  and leaves the stream open for the drain delay, and the envelope the peer parses
  has no \<^verbatim>\<open>id\<close> member.
\<close>

theorem message_without_id_is_answered:
  assumes "getProp (Some m) ''id'' = Inr None"
  shows "\<exists>r. processJsonRpcMessage rt m = Inr r \<and> rpc_id r = None
     \<and> getProp (Some (stringifyParse rt r)) ''id'' = Inr None
     \<and> postOnEnd rt (Inr m) newStream =
         (\<lparr>written = [DataFrame (Envelope r)], ended = False, destroyed = False\<rparr>,
          Some 2500)"
proof -
  obtain r where r: "processJsonRpcMessage rt m = Inr r"
    using assms by (cases "tryBody rt m") (auto simp: processJsonRpcMessage_def)
  have "getProp (Some m) ''id'' = Inr (rpc_id r)"
    using r
    by (auto simp: processJsonRpcMessage_def bindE_eq_Inr split: sum.splits dest: tryBody_id)
  with assms have none: "rpc_id r = None" by simp
  have wire: "getProp (Some (stringifyParse rt r)) ''id'' = Inr None"
    using none by (simp add: stringifyParse_def responseJson_def split: option.splits)
  have "sendSSE rt (Envelope r) newStream = resWrite (DataFrame (Envelope r)) newStream"
    using r none by (simp add: sendSSE_response)
  then have "postOnEnd rt (Inr m) newStream =
         (\<lparr>written = [DataFrame (Envelope r)], ended = False, destroyed = False\<rparr>,
          Some 2500)"
    using r by (simp add: postOnEnd_def resWrite_def newStream_def)
  with r none wire show ?thesis by blast
qed

text \<open>The theorem at the notification a client sends after \<^verbatim>\<open>initialize\<close>.\<close>

theorem message_without_id_is_answered_witness:
  "\<exists>r. processJsonRpcMessage exampleRuntime
         (JObj [(''jsonrpc'', JStr ''2.0''),
                (''method'', JStr ''notifications/initialized'')]) = Inr r
     \<and> rpc_id r = None
     \<and> getProp (Some (stringifyParse exampleRuntime r)) ''id'' = Inr None
     \<and> postOnEnd exampleRuntime
          (Inr (JObj [(''jsonrpc'', JStr ''2.0''),
                      (''method'', JStr ''notifications/initialized'')]))
          newStream =
         (\<lparr>written = [DataFrame (Envelope r)], ended = False, destroyed = False\<rparr>,
          Some 2500)"
  using message_without_id_is_answered
    [of "JObj [(''jsonrpc'', JStr ''2.0''), (''method'', JStr ''notifications/initialized'')]"
      exampleRuntime]
  by simp

text \<open>
  Against C3 as stated: the message \<^verbatim>\<open>{"jsonrpc":"2.0","method":"ping"}\<close> has no id,
  and \<^verbatim>\<open>POST /sse\<close> answers it with one response frame.
\<close>

theorem ping_without_id_is_answered:
  "postOnEnd exampleRuntime
     (Inr (JObj [(''jsonrpc'', JStr ''2.0''), (''method'', JStr ''ping'')])) newStream =
   (\<lparr>written = [DataFrame (Envelope
        \<lparr>jsonrpc = ''2.0'', rpc_id = None, result = Some (JObj []), error = None\<rparr>)],
      ended = False, destroyed = False\<rparr>, Some 2500)"
  by (simp add: postOnEnd_def processJsonRpcMessage_def tryBody_def handlePing_def
      create_result sendSSE_def responseJson_def stringify_shallow resWrite_def newStream_def)

text \<open>
  Claim C4. A message whose \<^verbatim>\<open>jsonrpc\<close> is not \<^verbatim>\<open>"2.0"\<close> should be answered with
  -32600 whatever its method is. The version test is the second statement of the
  \<^verbatim>\<open>try\<close>; the first is a log that serialises the method and the id. When either is
  nested deeper than \<^verbatim>\<open>JSON.stringify\<close> can follow, the log raises, the version is
  never tested, and the answer is -32603: two messages of version 1.0 that differ in
  the method alone get different errors. (When the log serialises, the answer is
  -32600: \<open>version_mismatch_when_logged\<close>.)
\<close>

theorem deep_id_or_method_defeats_version_check:
  "processJsonRpcMessage exampleRuntime
     (JObj [(''jsonrpc'', JStr ''1.0''), (''id'', nested 5001 JNull),
            (''method'', JStr ''ping'')]) =
   Inr \<lparr>jsonrpc = ''2.0'', rpc_id = Some (nested 5001 JNull), result = None,
        error = Some \<lparr>code = -32603, message = ''Internal error'',
                      data = Some ''Maximum call stack size exceeded''\<rparr>\<rparr>
   \<and> processJsonRpcMessage exampleRuntime
     (JObj [(''jsonrpc'', JStr ''1.0''), (''id'', JNum (Whole 7)),
            (''method'', nested 5001 JNull)]) =
   Inr \<lparr>jsonrpc = ''2.0'', rpc_id = Some (JNum (Whole 7)), result = None,
        error = Some \<lparr>code = -32603, message = ''Internal error'',
                      data = Some ''Maximum call stack size exceeded''\<rparr>\<rparr>
   \<and> processJsonRpcMessage exampleRuntime
     (JObj [(''jsonrpc'', JStr ''1.0''), (''id'', JNum (Whole 7)),
            (''method'', JStr ''ping'')]) =
   Inr \<lparr>jsonrpc = ''2.0'', rpc_id = Some (JNum (Whole 7)), result = None,
        error = Some \<lparr>code = -32600,
                      message = ''Invalid Request: jsonrpc must be '' @ sq @ ''2.0'' @ sq,
                      data = None\<rparr>\<rparr>"
  by (simp add: processJsonRpcMessage_def tryBody_def stringify_def jsonDepth_nested
      exampleRuntime_def create_error)

text \<open>
  Claim C5. An unknown method and an unknown tool should be answered with -32601.
  The branches that build that answer quote the offending value in its message, and
  logs that serialise the request's values run before them; each can raise, and the
  \<^verbatim>\<open>catch\<close> then answers -32603. So it goes for the tool name
  \<^verbatim>\<open>{"toString":null}\<close>, which no template literal can render; for the unknown tool
  \<^verbatim>\<open>delete\<close> with arguments nested too deep for the log of the handler; and for the unknown
  method \<^verbatim>\<open>resources/list\<close> with an id nested too deep for the log of the dispatcher.
  (When the logs serialise and the value can be rendered, the answer is -32601:
  \<open>unknown_method_when_logged\<close>, \<open>unknown_tool_when_logged\<close>.)
\<close>

theorem unknown_tool_is_answered_internal_error:
  "processJsonRpcMessage exampleRuntime
     (JObj [(''jsonrpc'', JStr ''2.0''), (''id'', JNum (Whole 1)),
            (''method'', JStr ''tools/call''),
            (''params'', JObj [(''name'', JObj [(''toString'', JNull)])])]) =
   Inr \<lparr>jsonrpc = ''2.0'', rpc_id = Some (JNum (Whole 1)), result = None,
        error = Some \<lparr>code = -32603, message = ''Internal error'',
                      data = Some ''Cannot convert object to primitive value''\<rparr>\<rparr>
   \<and> processJsonRpcMessage exampleRuntime
     (JObj [(''jsonrpc'', JStr ''2.0''), (''id'', JNum (Whole 2)),
            (''method'', JStr ''tools/call''),
            (''params'', JObj [(''name'', JStr ''delete''),
                               (''arguments'', nested 5001 JNull)])]) =
   Inr \<lparr>jsonrpc = ''2.0'', rpc_id = Some (JNum (Whole 2)), result = None,
        error = Some \<lparr>code = -32603, message = ''Internal error'',
                      data = Some ''Maximum call stack size exceeded''\<rparr>\<rparr>
   \<and> processJsonRpcMessage exampleRuntime
     (JObj [(''jsonrpc'', JStr ''2.0''), (''id'', nested 5001 JNull),
            (''method'', JStr ''resources/list'')]) =
   Inr \<lparr>jsonrpc = ''2.0'', rpc_id = Some (nested 5001 JNull), result = None,
        error = Some \<lparr>code = -32603, message = ''Internal error'',
                      data = Some ''Maximum call stack size exceeded''\<rparr>\<rparr>"
  by (simp add: processJsonRpcMessage_def tryBody_def handleToolsCall_def stringify_def
      jsonDepth_nested exampleRuntime_def create_error)

text \<open>
  Claim C6. Every \<^verbatim>\<open>tools/list\<close> request should be answered with the registry. One
  whose id is nested too deep for the dispatcher's log is answered with -32603
  instead, and \<^verbatim>\<open>POST /sse\<close> then writes no frame at all, since \<^verbatim>\<open>sendSSE\<close> cannot
  serialise the id it echoes. (When the log serialises, the result is
  \<^verbatim>\<open>{tools: TOOLS}\<close>, the registry whole and in its order: \<open>tools_list_when_logged\<close>.)
\<close>

theorem tools_list_with_deep_id_gets_no_registry:
  "processJsonRpcMessage exampleRuntime
     (JObj [(''jsonrpc'', JStr ''2.0''), (''id'', nested 5001 JNull),
            (''method'', JStr ''tools/list'')]) =
   Inr \<lparr>jsonrpc = ''2.0'', rpc_id = Some (nested 5001 JNull), result = None,
        error = Some \<lparr>code = -32603, message = ''Internal error'',
                      data = Some ''Maximum call stack size exceeded''\<rparr>\<rparr>
   \<and> postOnEnd exampleRuntime
     (Inr (JObj [(''jsonrpc'', JStr ''2.0''), (''id'', nested 5001 JNull),
                 (''method'', JStr ''tools/list'')])) newStream =
   (\<lparr>written = [], ended = False, destroyed = False\<rparr>, Some 2500)"
  by (simp add: postOnEnd_def processJsonRpcMessage_def tryBody_def stringify_def
      jsonDepth_nested exampleRuntime_def create_error sendSSE_def jsonDepth_responseJson
      newStream_def)

text \<open>
  Claim C7. When \<^verbatim>\<open>JSON.parse\<close> raises on the body of a \<^verbatim>\<open>POST /sse\<close>, the handler writes
  one frame, the response with the error -32700 and the id null, and ends the stream
  at once.
\<close>

theorem unparseable_body_is_parse_error:
  "postOnEnd rt (Inl e) newStream =
     (\<lparr>written = [DataFrame (Envelope
          \<lparr>jsonrpc = ''2.0'', rpc_id = Some JNull, result = None,
           error = Some \<lparr>code = -32700, message = ''Parse error'', data = None\<rparr>\<rparr>)],
       ended = True, destroyed = False\<rparr>, None)"
  by (simp add: postOnEnd_def sendSSE_parse_error resWrite_def resEnd_def newStream_def
      create_error)



text \<open>
  Claim C9. Whenever the dispatcher returns a response, its id is what reading
  \<^verbatim>\<open>message.id\<close> gives: the id of the request, of any type, or undefined when the
  request has none.
\<close>

theorem response_echoes_request_id:
  "processJsonRpcMessage rt m = Inr r \<Longrightarrow> getProp (Some m) ''id'' = Inr (rpc_id r)"
  by (auto simp: processJsonRpcMessage_def bindE_eq_Inr split: sum.splits dest: tryBody_id)

text \<open>The theorem at a \<^verbatim>\<open>search\<close> call with the string id \<^verbatim>\<open>req-1\<close>.\<close>

theorem response_echoes_request_id_witness:
  "processJsonRpcMessage exampleRuntime
     (JObj [(''jsonrpc'', JStr ''2.0''), (''id'', JStr ''req-1''),
            (''method'', JStr ''tools/call''),
            (''params'', JObj [(''name'', JStr ''search''),
                               (''arguments'', JObj [(''query'', JStr ''leads'')])])]) =
   Inr \<lparr>jsonrpc = ''2.0'', rpc_id = Some (JStr ''req-1''),
        result = Some (JObj [(''content'', textContent (searchText ''leads''))]),
        error = None\<rparr>
   \<and> getProp (Some (JObj [(''jsonrpc'', JStr ''2.0''), (''id'', JStr ''req-1''),
            (''method'', JStr ''tools/call''),
            (''params'', JObj [(''name'', JStr ''search''),
                               (''arguments'', JObj [(''query'', JStr ''leads'')])])])) ''id''
     = Inr (Some (JStr ''req-1''))"
  using response_echoes_request_id [OF example_search_call] example_search_call by simp

text \<open>
  Claim C10. A \<^verbatim>\<open>tools/call\<close> of version 2.0 is answered with the error -32603 when it
  has no \<^verbatim>\<open>params\<close> (the destructuring raises), and when its \<^verbatim>\<open>params\<close> names \<^verbatim>\<open>search\<close> or
  \<^verbatim>\<open>retrieve\<close> and has no \<^verbatim>\<open>arguments\<close> (the read of \<^verbatim>\<open>args.query\<close> or \<^verbatim>\<open>args.type\<close> raises).
  The handler raises \<open>e\<close>. The data of the response is the message of the exception
  that reached the \<^verbatim>\<open>catch\<close>: of \<open>e\<close> when the dispatcher's log serialised the id, of
  the log's \<^verbatim>\<open>RangeError\<close> otherwise.
\<close>

theorem tools_call_missing_arguments_is_internal_error:
  assumes "getProp (Some m) ''jsonrpc'' = Inr (Some (JStr ''2.0''))"
    and "getProp (Some m) ''method'' = Inr (Some (JStr ''tools/call''))"
    and "getProp (Some m) ''params'' = Inr params"
    and "params = None \<and> e = TypeError DestructureOfUndefined
       \<or> (\<exists>p. params = Some p
             \<and> getProp (Some p) ''name'' = Inr (Some (JStr ''search''))
             \<and> getProp (Some p) ''arguments'' = Inr None
             \<and> e = TypeError (ReadOfUndefined ''query''))
       \<or> (\<exists>p. params = Some p
             \<and> getProp (Some p) ''name'' = Inr (Some (JStr ''retrieve''))
             \<and> getProp (Some p) ''arguments'' = Inr None
             \<and> e = TypeError (ReadOfUndefined ''type''))"
  shows "\<exists>i e'. getProp (Some m) ''id'' = Inr i \<and>
    handleToolsCall rt m = Inl e \<and>
    tryBody rt m = Inl e' \<and>
    (e' = e \<or> e' = RangeError) \<and>
    (log rt (Some (JObj (objectOf [(''method'', Some (JStr ''tools/call'')), (''id'', i)])))
       = Inr () \<longrightarrow> e' = e) \<and>
    processJsonRpcMessage rt m =
      Inr \<lparr>jsonrpc = ''2.0'', rpc_id = i, result = None,
           error = Some \<lparr>code = -32603, message = ''Internal error'',
                         data = Some (errMessage rt e')\<rparr>\<rparr>"
proof -
  from assms(1) have "m \<noteq> JNull" by (rule getProp_Inr_nonnull)
  then obtain i where i: "getProp (Some m) ''id'' = Inr i"
    using getProp_Some_total by blast
  let ?entry = "log rt (Some (JObj (objectOf [(''method'', Some (JStr ''tools/call'')), (''id'', i)])))"
  have raised: "handleToolsCall rt m = Inl e"
    using assms(3,4)
    by (auto simp: tools_call_without_params tools_call_search_without_arguments
        tools_call_retrieve_without_arguments)
  consider (ok) "?entry = Inr ()" | (deep) "?entry = Inl RangeError"
    using log_cases by blast
  then show ?thesis
  proof cases
    case ok
    have "tryBody rt m = handleToolsCall rt m"
      using assms(1,2) i ok by (simp add: tryBody_valid)
    with raised have "tryBody rt m = Inl e" by simp
    then show ?thesis
      using i raised process_of_tryBody_Inl by blast
  next
    case deep
    have body: "tryBody rt m = Inl RangeError"
      using assms(2) i deep by (rule tryBody_entry_log_raises)
    then have "processJsonRpcMessage rt m =
      Inr \<lparr>jsonrpc = ''2.0'', rpc_id = i, result = None,
           error = Some \<lparr>code = -32603, message = ''Internal error'',
                         data = Some (errMessage rt RangeError)\<rparr>\<rparr>"
      using i by (rule process_of_tryBody_Inl)
    with i raised body deep show ?thesis by auto
  qed
qed

text \<open>
  The theorem at a \<^verbatim>\<open>search\<close> without arguments, at a \<^verbatim>\<open>retrieve\<close> without arguments and
  at a call without \<^verbatim>\<open>params\<close>.
\<close>

theorem tools_call_missing_arguments_is_internal_error_witness:
  "processJsonRpcMessage exampleRuntime
     (JObj [(''jsonrpc'', JStr ''2.0''), (''id'', JNum (Whole 4)), (''method'', JStr ''tools/call''),
            (''params'', JObj [(''name'', JStr ''search'')])]) =
      Inr \<lparr>jsonrpc = ''2.0'', rpc_id = Some (JNum (Whole 4)), result = None,
           error = Some \<lparr>code = -32603, message = ''Internal error'',
                         data = Some (v8Message (TypeError (ReadOfUndefined ''query'')))\<rparr>\<rparr>
   \<and> processJsonRpcMessage exampleRuntime
     (JObj [(''jsonrpc'', JStr ''2.0''), (''id'', JNum (Whole 6)), (''method'', JStr ''tools/call''),
            (''params'', JObj [(''name'', JStr ''retrieve'')])]) =
      Inr \<lparr>jsonrpc = ''2.0'', rpc_id = Some (JNum (Whole 6)), result = None,
           error = Some \<lparr>code = -32603, message = ''Internal error'',
                         data = Some (v8Message (TypeError (ReadOfUndefined ''type'')))\<rparr>\<rparr>
   \<and> processJsonRpcMessage exampleRuntime
     (JObj [(''jsonrpc'', JStr ''2.0''), (''id'', JNum (Whole 5)), (''method'', JStr ''tools/call'')]) =
      Inr \<lparr>jsonrpc = ''2.0'', rpc_id = Some (JNum (Whole 5)), result = None,
           error = Some \<lparr>code = -32603, message = ''Internal error'',
                         data = Some (v8Message (TypeError DestructureOfUndefined))\<rparr>\<rparr>"
  using tools_call_missing_arguments_is_internal_error
      [of "JObj [(''jsonrpc'', JStr ''2.0''), (''id'', JNum (Whole 4)), (''method'', JStr ''tools/call''),
                 (''params'', JObj [(''name'', JStr ''search'')])]"
        "Some (JObj [(''name'', JStr ''search'')])" "TypeError (ReadOfUndefined ''query'')"
        exampleRuntime]
    tools_call_missing_arguments_is_internal_error
      [of "JObj [(''jsonrpc'', JStr ''2.0''), (''id'', JNum (Whole 6)), (''method'', JStr ''tools/call''),
                 (''params'', JObj [(''name'', JStr ''retrieve'')])]"
        "Some (JObj [(''name'', JStr ''retrieve'')])" "TypeError (ReadOfUndefined ''type'')"
        exampleRuntime]
    tools_call_missing_arguments_is_internal_error
      [of "JObj [(''jsonrpc'', JStr ''2.0''), (''id'', JNum (Whole 5)), (''method'', JStr ''tools/call'')]"
        None "TypeError DestructureOfUndefined" exampleRuntime]
  by (auto simp: exampleRuntime_def stringify_def)

end
